theory Spec2Isabelle
  imports Complex_Main
begin

section \<open>Header normalisation\<close>

text \<open>
  Line 57 of \<^verbatim>\<open>tourist_website.py\<close> turns every header into
  \<^verbatim>\<open>str(c).strip().lower().replace(' ', '_')\<close>.
  Strings are modelled as lists of ASCII characters: \<open>strip\<close> removes the ASCII characters
  for which Python's \<^verbatim>\<open>str.isspace\<close> holds, \<open>lower\<close> maps \<open>A\<close>..\<open>Z\<close> to
  \<open>a\<close>..\<open>z\<close>, and every other character is left as it is.
\<close>

definition is_space :: "char \<Rightarrow> bool" where
  "is_space c \<longleftrightarrow>
     c \<in> set [CHR '' '', CHR 0x09, CHR 0x0A, CHR 0x0B, CHR 0x0C, CHR 0x0D,
              CHR 0x1C, CHR 0x1D, CHR 0x1E, CHR 0x1F]"

definition strip :: "string \<Rightarrow> string" where
  "strip s = rev (dropWhile is_space (rev (dropWhile is_space s)))"

definition lower_char :: "char \<Rightarrow> char" where
  "lower_char c =
     (case map_of (zip ''ABCDEFGHIJKLMNOPQRSTUVWXYZ'' ''abcdefghijklmnopqrstuvwxyz'') c of
        Some d \<Rightarrow> d
      | None \<Rightarrow> c)"

definition lower :: "string \<Rightarrow> string" where
  "lower s = map lower_char s"

definition replace_space :: "string \<Rightarrow> string" where
  "replace_space s = map (\<lambda>c. if c = CHR '' '' then CHR ''_'' else c) s"

definition norm_col :: "string \<Rightarrow> string" where
  "norm_col c = replace_space (lower (strip c))"

section \<open>Data frames\<close>

text \<open>
  A pandas data frame is modelled row-major: the column labels with the dtype of each
  column, and the rows, each a list of cells in column order (every row of a frame has as
  many cells as there are columns). Labels may repeat: pandas allows it, and the renaming
  of line 58 can make two labels equal. A cell is missing (\<open>NaN\<close>), a string, or a number;
  the numbers are a type parameter. \<open>ObjectT\<close> is the dtype of a column of strings,
  \<open>NumericT\<close> stands for the numeric dtypes (a column that \<^verbatim>\<open>read_csv\<close> found to hold
  nothing but numbers and missing values).
\<close>

datatype dtype = ObjectT | NumericT

datatype 'n cell = NaN | Str string | Num 'n

record 'n frame =
  columns :: "(string \<times> dtype) list"
  rows :: "'n cell list list"

datatype exn = FileNotFoundError | EmptyDataError | KeyError | TypeError | OtherException

definition labels :: "'n frame \<Rightarrow> string list" where
  "labels df = map fst (columns df)"

text \<open>\<^verbatim>\<open>df.rename(columns=d)\<close>: every label \<open>l\<close> becomes \<^verbatim>\<open>d.get(l, l)\<close>.\<close>

definition rename_columns :: "(string \<Rightarrow> string) \<Rightarrow> 'n frame \<Rightarrow> 'n frame" where
  "rename_columns f df = df\<lparr>columns := map (\<lambda>(l, t). (f l, t)) (columns df)\<rparr>"

text \<open>The cells of a row that stand in the columns labelled \<open>c\<close>.\<close>

definition cells_at :: "string list \<Rightarrow> string \<Rightarrow> 'a list \<Rightarrow> 'a list" where
  "cells_at ls c r = map snd (filter (\<lambda>(l, v). l = c) (zip ls r))"

text \<open>Apply \<open>f\<close> to the cells of a row whose column label satisfies \<open>p\<close>.\<close>

fun update_cells :: "(string \<Rightarrow> bool) \<Rightarrow> ('a \<Rightarrow> 'a) \<Rightarrow> string list \<Rightarrow> 'a list \<Rightarrow> 'a list" where
  "update_cells p f (l # ls) (v # vs) = (if p l then f v else v) # update_cells p f ls vs"
| "update_cells p f ls vs = vs"

section \<open>The loader\<close>

definition synonyms :: "(string \<times> string list) list" where
  "synonyms =
     [(''name'', [''name'', ''destination'', ''place'', ''title'', ''location'']),
      (''state'', [''state'', ''region'', ''province'']),
      (''description'', [''description'', ''desc'', ''details'', ''about'']),
      (''popular_attractions'',
         [''popular_attractions'', ''attractions'', ''popular_attraction'', ''attraction'']),
      (''image_url'',
         [''image_url'', ''image'', ''image_link'', ''imageurl'', ''photo'', ''photo_url'']),
      (''latitude'', [''latitude'', ''lat'']),
      (''longitude'', [''longitude'', ''lon'', ''long'', ''lng''])]"

definition required_columns :: "string list" where
  "required_columns =
     [''name'', ''state'', ''description'', ''popular_attractions'', ''image_url'']"

text \<open>
  Lines 72 to 77: for each canonical name, in the order of the dictionary, the first
  option that is a column label is recorded in \<open>found\<close>.
\<close>

fun find_columns :: "(string \<times> string list) list \<Rightarrow> string list \<Rightarrow> (string \<times> string) list" where
  "find_columns [] cols = []"
| "find_columns ((canonical, options) # rest) cols =
     (case find (\<lambda>opt. opt \<in> set cols) options of
        None \<Rightarrow> find_columns rest cols
      | Some opt \<Rightarrow> (canonical, opt) # find_columns rest cols)"

text \<open>
  Line 80: \<^verbatim>\<open>{found[k]: k for k in found}\<close>. In a dictionary comprehension a later entry
  replaces an earlier one with the same key, hence the \<open>rev\<close>.
\<close>

definition rename_map :: "(string \<times> string) list \<Rightarrow> string \<Rightarrow> string option" where
  "rename_map found = map_of (rev (map (\<lambda>(k, opt). (opt, k)) found))"

definition rename_label :: "(string \<Rightarrow> string option) \<Rightarrow> string \<Rightarrow> string" where
  "rename_label m l = (case m l of Some k \<Rightarrow> k | None \<Rightarrow> l)"

text \<open>The labels of the frame after lines 56 to 82, from the headers of the file.\<close>

definition renamed_labels :: "string list \<Rightarrow> string list" where
  "renamed_labels hs =
     (let cols = map norm_col hs
      in map (rename_label (rename_map (find_columns synonyms cols))) cols)"

text \<open>
  \<^verbatim>\<open>df.dropna(subset=...)\<close> keeps the rows that have no missing cell in the columns of the
  subset, in their order; with a repeated label every column that bears it counts. A label
  of the subset that is no column is a \<^verbatim>\<open>KeyError\<close>.
\<close>

definition keeps :: "string list \<Rightarrow> string list \<Rightarrow> 'n cell list \<Rightarrow> bool" where
  "keeps cs ls r \<longleftrightarrow> (\<forall>c \<in> set cs. NaN \<notin> set (cells_at ls c r))"

definition dropna :: "string list \<Rightarrow> 'n frame \<Rightarrow> exn + 'n frame" where
  "dropna cs df =
     (if \<exists>c \<in> set cs. c \<notin> set (labels df) then Inl KeyError
      else Inr (df\<lparr>rows := filter (keeps cs (labels df)) (rows df)\<rparr>))"

text \<open>
  \<^verbatim>\<open>pd.to_numeric(..., errors='coerce')\<close> on one cell: a string becomes its number, or
  \<open>NaN\<close> when it has none; numbers and missing values stay. How pandas reads a string as a
  number is the parameter \<open>to_num\<close>.
\<close>

definition to_numeric :: "(string \<Rightarrow> 'n option) \<Rightarrow> 'n cell \<Rightarrow> 'n cell" where
  "to_numeric to_num v =
     (case v of
        Str s \<Rightarrow> (case to_num s of Some x \<Rightarrow> Num x | None \<Rightarrow> NaN)
      | _ \<Rightarrow> v)"

text \<open>
  Lines 102 and 103 for one coordinate: nothing when no column bears the label; when
  several do, \<^verbatim>\<open>df[coord]\<close> is a frame and \<^verbatim>\<open>pd.to_numeric\<close> raises
  \<^verbatim>\<open>TypeError\<close>; otherwise the column is replaced by its numeric conversion.
\<close>

definition convert_coord :: "(string \<Rightarrow> 'n option) \<Rightarrow> string \<Rightarrow> 'n frame \<Rightarrow> exn + 'n frame" where
  "convert_coord to_num coord df =
     (if coord \<notin> set (labels df) then Inr df
      else if length (filter (\<lambda>l. l = coord) (labels df)) \<noteq> 1 then Inl TypeError
      else Inr (df\<lparr>columns := map (\<lambda>(l, t). if l = coord then (l, NumericT) else (l, t)) (columns df),
                   rows := map (update_cells (\<lambda>l. l = coord) (to_numeric to_num) (labels df))
                             (rows df)\<rparr>))"

definition and_then :: "'e + 'a \<Rightarrow> ('a \<Rightarrow> 'e + 'b) \<Rightarrow> 'e + 'b" where
  "and_then x f = (case x of Inl e \<Rightarrow> Inl e | Inr a \<Rightarrow> f a)"

text \<open>
  What \<^verbatim>\<open>load_data\<close> reports. It returns \<^verbatim>\<open>None\<close> after one of four calls of
  \<^verbatim>\<open>st.error\<close>; the constructors name the four messages. \<open>MissingColumns\<close> carries the
  two lists the message of lines 90 to 94 is formatted from: \<^verbatim>\<open>missing\<close> and
  \<^verbatim>\<open>df.columns\<close>.
\<close>

datatype load_error = NotFound | EmptyOrInvalid | MissingColumns "string list" "string list"
  | Unknown

text \<open>
  \<^verbatim>\<open>load_data\<close>. Its first argument is the string-to-number conversion of pandas, its
  second what \<^verbatim>\<open>pd.read_csv('destinations.csv', encoding='utf-8-sig')\<close> did: raise, or
  return a frame. Every exception raised inside the \<^verbatim>\<open>try\<close> block ends in one of the
  three handlers.
\<close>

definition load_data :: "(string \<Rightarrow> 'n option) \<Rightarrow> exn + 'n frame \<Rightarrow> load_error + 'n frame" where
  "load_data to_num read =
     (case read of
        Inl FileNotFoundError \<Rightarrow> Inl NotFound
      | Inl EmptyDataError \<Rightarrow> Inl EmptyOrInvalid
      | Inl _ \<Rightarrow> Inl Unknown
      | Inr df0 \<Rightarrow>
          (let df1 = rename_columns norm_col df0;
               found = find_columns synonyms (labels df1);
               df2 = rename_columns (rename_label (rename_map found)) df1;
               missing = filter (\<lambda>c. c \<notin> set (labels df2)) required_columns
           in if missing \<noteq> [] then Inl (MissingColumns missing (labels df2))
              else
                (case and_then (dropna [''name'', ''state''] df2) (\<lambda>df3.
                      and_then (convert_coord to_num ''latitude'' df3)
                               (convert_coord to_num ''longitude'')) of
                   Inl FileNotFoundError \<Rightarrow> Inl NotFound
                 | Inl EmptyDataError \<Rightarrow> Inl EmptyOrInvalid
                 | Inl _ \<Rightarrow> Inl Unknown
                 | Inr df \<Rightarrow> Inr df)))"

section \<open>Reading the file\<close>

text \<open>
  \<^verbatim>\<open>pd.read_csv\<close> is pandas' and not part of the program. For the scenarios that start
  from the text of a file, its defaults are modelled on the fields of the file, after
  pandas has split the lines: a field that is one of the default missing-value markers is
  \<open>NaN\<close> (no whitespace is removed before the comparison); a column in which every other
  field reads as a number is numeric; any other column is a column of strings.
\<close>

definition na_values :: "string list" where
  "na_values =
     [[], ''#N/A'', ''#N/A N/A'', ''#NA'', ''-1.#IND'', ''-1.#QNAN'', ''-NaN'', ''-nan'',
      ''1.#IND'', ''1.#QNAN'', ''<NA>'', ''N/A'', ''NA'', ''NULL'', ''NaN'', ''None'', ''n/a'',
      ''nan'', ''null'']"

fun infer_dtypes :: "(string \<Rightarrow> 'n option) \<Rightarrow> string list \<Rightarrow> string list list \<Rightarrow> dtype list" where
  "infer_dtypes to_num [] rs = []"
| "infer_dtypes to_num (h # hs) rs =
     (if \<forall>r \<in> set rs. (case r of [] \<Rightarrow> True | v # _ \<Rightarrow> v \<in> set na_values \<or> to_num v \<noteq> None)
      then NumericT else ObjectT) # infer_dtypes to_num hs (map tl rs)"

definition read_cell :: "(string \<Rightarrow> 'n option) \<Rightarrow> dtype \<Rightarrow> string \<Rightarrow> 'n cell" where
  "read_cell to_num t v =
     (if v \<in> set na_values then NaN
      else case t of
             ObjectT \<Rightarrow> Str v
           | NumericT \<Rightarrow> (case to_num v of Some x \<Rightarrow> Num x | None \<Rightarrow> NaN))"

definition read_fields :: "(string \<Rightarrow> 'n option) \<Rightarrow> string list \<Rightarrow> string list list \<Rightarrow> 'n frame" where
  "read_fields to_num header rs =
     (let ts = infer_dtypes to_num header rs
      in \<lparr>columns = zip header ts,
          rows = map (\<lambda>r. map (\<lambda>(t, v). read_cell to_num t v) (zip ts r)) rs\<rparr>)"

text \<open>
  A conversion for the concrete scenarios: plain decimal notation (an optional minus sign,
  digits, at most one point), read as an exact rational; the rounding to a binary
  floating-point number is not modelled. It answers \<open>None\<close> on every other string and is
  used only on strings in this notation or with no numeric reading at all.
\<close>

definition digit_of :: "char \<Rightarrow> nat option" where
  "digit_of c = map_of (zip ''0123456789'' [0, 1, 2, 3, 4, 5, 6, 7, 8, 9]) c"

fun digits_val :: "nat \<Rightarrow> string \<Rightarrow> nat option" where
  "digits_val acc [] = Some acc"
| "digits_val acc (c # cs) =
     (case digit_of c of None \<Rightarrow> None | Some d \<Rightarrow> digits_val (10 * acc + d) cs)"

definition unsigned_decimal :: "string \<Rightarrow> rat option" where
  "unsigned_decimal s =
     (let ip = takeWhile (\<lambda>c. c \<noteq> CHR ''.'') s;
          fp = drop 1 (dropWhile (\<lambda>c. c \<noteq> CHR ''.'') s)
      in if ip = [] \<and> fp = [] then None
         else case (digits_val 0 ip, digits_val 0 fp) of
                (Some a, Some b) \<Rightarrow> Some (of_nat a + of_nat b / 10 ^ length fp)
              | _ \<Rightarrow> None)"

definition parse_decimal :: "string \<Rightarrow> rat option" where
  "parse_decimal s =
     (case s of
        [] \<Rightarrow> None
      | c # t \<Rightarrow> if c = CHR ''-'' then map_option uminus (unsigned_decimal t)
                 else unsigned_decimal s)"

section \<open>The filters of \<^verbatim>\<open>main\<close>\<close>

text \<open>
  Lines 138 to 147 of \<^verbatim>\<open>main\<close> are written to filter the loaded table by the text of the
  search box and by the selected state. Line 141 ends in the operator \<^verbatim>\<open>|\<close> after its
  closing parenthesis, with no bracket open and no backslash, so the statement ends there
  and the file is not a well-formed Python program: \<^verbatim>\<open>main\<close> is never compiled and
  returns no table, whatever the query and the state. No function of the model stands for
  these lines.
\<close>

section \<open>Scenarios\<close>

text \<open>Files and tables on which the loader and the filters are run below.\<close>

definition scenario_A :: "rat frame" where
  "scenario_A = read_fields parse_decimal
     [''Destination'', ''Region'', ''About'', ''Attraction'', ''Photo'', ''Lat'', ''Lng'']
     [[''Taj Mahal'', ''Uttar Pradesh'', ''Iconic mausoleum'', ''Taj Mahal;sunrise view'',
       ''http://x/img.jpg'', ''27.1751'', ''78.0421'']]"

definition no_state_csv :: "rat frame" where
  "no_state_csv = read_fields parse_decimal
     [''Destination'', ''About'', ''Attraction'', ''Photo'']
     [[''Taj Mahal'', ''Iconic mausoleum'', ''Taj Mahal;sunrise view'', ''http://x/img.jpg'']]"

definition blank_name_csv :: "rat frame" where
  "blank_name_csv = read_fields parse_decimal
     [''name'', ''state'', ''description'', ''popular_attractions'', ''image_url'']
     [[''   '', ''Goa'', ''Beaches'', ''Baga'', ''http://x/goa.jpg''],
      [[], ''Kerala'', ''Backwaters'', ''Alleppey'', ''http://x/kerala.jpg''],
      [''Amber Fort'', ''Rajasthan'', ''Hilltop palace'', ''Sheesh Mahal'', ''http://x/amber.jpg'']]"

definition bad_latitude_csv :: "rat frame" where
  "bad_latitude_csv = read_fields parse_decimal
     [''name'', ''state'', ''description'', ''popular_attractions'', ''image_url'',
      ''latitude'', ''longitude'']
     [[''Taj Mahal'', ''Uttar Pradesh'', ''Iconic mausoleum'', ''Taj Mahal;sunrise view'',
       ''http://x/img.jpg'', ''abc'', ''78.0421''],
      [''Amber Fort'', ''Rajasthan'', ''Hilltop palace'', ''Sheesh Mahal'', ''http://x/amber.jpg'',
       ''26.9855'', ''75.8513'']]"

definition extra_column_csv :: "rat frame" where
  "extra_column_csv = read_fields parse_decimal
     [''Name'', ''State'', ''Description'', ''Popular Attractions'', ''Image URL'', ''Best Season'']
     [[''Taj Mahal'', ''Uttar Pradesh'', ''Iconic mausoleum'', ''Taj Mahal;sunrise view'',
       ''http://x/img.jpg'', ''Winter'']]"

definition half_position_csv :: "rat frame" where
  "half_position_csv = read_fields parse_decimal
     [''Destination'', ''Region'', ''About'', ''Attraction'', ''Photo'', ''Lat'', ''Lng'']
     [[''Taj Mahal'', ''Uttar Pradesh'', ''Iconic mausoleum'', ''Taj Mahal;sunrise view'',
       ''http://x/img.jpg'', ''27.1751'', ''unknown'']]"

section \<open>Facts about the loader\<close>

lemma strip_trimmed:
  assumes "\<forall>ch \<in> set lead. is_space ch" and "\<forall>ch \<in> set trail. is_space ch"
    and "body \<noteq> []" and "\<not> is_space (hd body)" and "\<not> is_space (last body)"
  shows "strip (lead @ body @ trail) = body"
proof -
  have "dropWhile is_space (lead @ body @ trail) = dropWhile is_space (body @ trail)"
    by (rule dropWhile_append2) (use assms(1) in auto)
  also have "\<dots> = body @ trail"
    using assms(3,4) by (cases body) simp_all
  finally have a: "dropWhile is_space (lead @ body @ trail) = body @ trail" .
  have "dropWhile is_space (rev trail @ rev body) = dropWhile is_space (rev body)"
    by (rule dropWhile_append2) (use assms(2) in auto)
  also have "\<dots> = rev body"
    using assms(3,5) by (cases "rev body") (simp_all add: last_rev [symmetric] hd_rev)
  finally have b: "dropWhile is_space (rev trail @ rev body) = rev body" .
  show ?thesis by (simp add: strip_def a b)
qed

lemma norm_col_trimmed:
  assumes "ws = [CHR '' '', CHR 0x09, CHR 0x0A, CHR 0x0B, CHR 0x0C, CHR 0x0D,
                 CHR 0x1C, CHR 0x1D, CHR 0x1E, CHR 0x1F]"
    and "set lead \<subseteq> set ws" and "set trail \<subseteq> set ws"
    and "body \<noteq> []" and "hd body \<notin> set ws" and "last body \<notin> set ws"
  shows "norm_col (lead @ body @ trail) =
     map (\<lambda>ch. if ch = CHR '' '' then CHR ''_'' else ch)
       (map (\<lambda>ch. case map_of (zip ''ABCDEFGHIJKLMNOPQRSTUVWXYZ''
                                     ''abcdefghijklmnopqrstuvwxyz'') ch of
                     None \<Rightarrow> ch | Some d \<Rightarrow> d) body)"
proof -
  have sp: "is_space ch \<longleftrightarrow> ch \<in> set ws" for ch
    unfolding assms(1) is_space_def ..
  have "strip (lead @ body @ trail) = body"
    using assms(2-6) by (intro strip_trimmed) (auto simp: sp)
  moreover have "lower_char = (\<lambda>ch. case map_of (zip ''ABCDEFGHIJKLMNOPQRSTUVWXYZ''
      ''abcdefghijklmnopqrstuvwxyz'') ch of None \<Rightarrow> ch | Some d \<Rightarrow> d)"
    by (rule ext) (simp only: lower_char_def)
  ultimately show ?thesis
    by (simp only: norm_col_def replace_space_def lower_def)
qed

lemma find_columns_sound:
  "(c, opt) \<in> set (find_columns syn cols) \<Longrightarrow>
     \<exists>options. (c, options) \<in> set syn \<and> find (\<lambda>opt. opt \<in> set cols) options = Some opt"
  by (induction syn cols rule: find_columns.induct) (auto split: option.splits)

lemma find_columns_keys: "fst ` set (find_columns syn cols) \<subseteq> fst ` set syn"
proof
  fix k
  assume "k \<in> fst ` set (find_columns syn cols)"
  then obtain opt where "(k, opt) \<in> set (find_columns syn cols)" by auto
  then obtain options where "(k, options) \<in> set syn"
    using find_columns_sound by blast
  then show "k \<in> fst ` set syn" by force
qed

lemma find_columns_map_of:
  "distinct (map fst syn) \<Longrightarrow> (c, options) \<in> set syn \<Longrightarrow>
     map_of (find_columns syn cols) c = find (\<lambda>opt. opt \<in> set cols) options"
proof (induction syn cols rule: find_columns.induct)
  case (1 cols)
  then show ?case by simp
next
  case (2 canonical opts rest cols)
  show ?case
  proof (cases "c = canonical")
    case True
    with 2(3,4) have eq: "options = opts"
      by (auto simp: image_iff)
    have "map_of (find_columns rest cols) canonical = None"
      using 2(3) find_columns_keys [of rest cols] by (auto simp: map_of_eq_None_iff)
    with True eq show ?thesis by (simp split: option.splits)
  next
    case False
    with 2 show ?thesis by (auto split: option.splits)
  qed
qed

lemma find_in_options: "find P xs = Some x \<Longrightarrow> x \<in> set xs \<and> P x"
  by (induction xs) (auto split: if_splits)

lemma find_columns_values:
  assumes "(c, opt) \<in> set (find_columns syn cols)"
  shows "opt \<in> set (concat (map snd syn))" and "opt \<in> set cols"
proof -
  from assms obtain options where o: "(c, options) \<in> set syn"
    and f: "find (\<lambda>opt. opt \<in> set cols) options = Some opt"
    using find_columns_sound by blast
  from f have "opt \<in> set options" and "opt \<in> set cols"
    using find_in_options [of "\<lambda>opt. opt \<in> set cols" options opt] by simp_all
  with o show "opt \<in> set (concat (map snd syn))" and "opt \<in> set cols"
    by force+
qed

lemma find_columns_distinct:
  "distinct (concat (map snd syn)) \<Longrightarrow> distinct (map snd (find_columns syn cols))"
proof (induction syn cols rule: find_columns.induct)
  case (1 cols)
  then show ?case by simp
next
  case (2 canonical opts rest cols)
  have rest: "distinct (map snd (find_columns rest cols))"
    using 2 by (cases "find (\<lambda>opt. opt \<in> set cols) opts") simp_all
  show ?case
  proof (cases "find (\<lambda>opt. opt \<in> set cols) opts")
    case None
    with rest show ?thesis by simp
  next
    case (Some opt)
    then have "opt \<in> set opts" by (simp add: find_in_options)
    moreover have "\<And>o'. o' \<in> snd ` set (find_columns rest cols) \<Longrightarrow> o' \<in> set (concat (map snd rest))"
      using find_columns_values(1) [of _ _ rest cols] by auto
    ultimately have "opt \<notin> snd ` set (find_columns rest cols)"
      using 2(3) by auto
    with Some rest show ?thesis by simp
  qed
qed

lemma rename_map_Some:
  "distinct (map snd found) \<Longrightarrow> rename_map found l = Some c \<longleftrightarrow> (c, l) \<in> set found"
proof -
  assume d: "distinct (map snd found)"
  have "map fst (rev (map (\<lambda>(k, opt). (opt, k)) found)) = rev (map snd found)"
    by (induction found) auto
  with d have "distinct (map fst (rev (map (\<lambda>(k, opt). (opt, k)) found)))" by simp
  then have "map_of (rev (map (\<lambda>(k, opt). (opt, k)) found)) l = Some c
      \<longleftrightarrow> (l, c) \<in> set (rev (map (\<lambda>(k, opt). (opt, k)) found))"
    by simp
  then show ?thesis by (auto simp: rename_map_def)
qed

lemma synonyms_keys: "distinct (map fst synonyms)"
  by (simp add: synonyms_def)

lemma synonyms_disjoint: "distinct (concat (map snd synonyms))"
  by (simp add: synonyms_def)

lemma synonyms_own: "(c, options) \<in> set synonyms \<Longrightarrow> c \<in> set options"
  by (auto simp: synonyms_def)


lemma bound_label:
  assumes "(c, options) \<in> set synonyms"
    and "find (\<lambda>opt. opt \<in> set cols) options = Some s"
  shows "rename_label (rename_map (find_columns synonyms cols)) s = c"
proof -
  have "map_of (find_columns synonyms cols) c = Some s"
    using assms find_columns_map_of [OF synonyms_keys] by simp
  then have "(c, s) \<in> set (find_columns synonyms cols)"
    by (rule map_of_SomeD)
  then have "rename_map (find_columns synonyms cols) s = Some c"
    using rename_map_Some [OF find_columns_distinct [OF synonyms_disjoint]] by simp
  then show ?thesis by (simp add: rename_label_def)
qed

lemma renamed_canonical:
  assumes "rename_label (rename_map (find_columns synonyms cols)) l \<noteq> l"
  shows "rename_label (rename_map (find_columns synonyms cols)) l \<in> fst ` set synonyms"
proof -
  from assms obtain c where c: "rename_map (find_columns synonyms cols) l = Some c"
    by (auto simp: rename_label_def split: option.splits)
  then have "(c, l) \<in> set (find_columns synonyms cols)"
    using rename_map_Some [OF find_columns_distinct [OF synonyms_disjoint]] by simp
  then have "c \<in> fst ` set synonyms"
    using find_columns_keys [of synonyms cols] by force
  with c show ?thesis by (simp add: rename_label_def)
qed

lemma label_present_iff:
  assumes "(c, options) \<in> set synonyms"
  shows "c \<in> set (map (rename_label (rename_map (find_columns synonyms cols))) cols)
           \<longleftrightarrow> map_of (find_columns synonyms cols) c \<noteq> None"
proof
  assume "c \<in> set (map (rename_label (rename_map (find_columns synonyms cols))) cols)"
  then obtain l where l: "l \<in> set cols"
    and r: "rename_label (rename_map (find_columns synonyms cols)) l = c"
    by auto
  show "map_of (find_columns synonyms cols) c \<noteq> None"
  proof (cases "rename_map (find_columns synonyms cols) l")
    case None
    with r have "l = c" by (simp add: rename_label_def)
    with l have "c \<in> set cols" by simp
    moreover have "c \<in> set options" using assms by (rule synonyms_own)
    ultimately have "find (\<lambda>opt. opt \<in> set cols) options \<noteq> None"
      by (auto simp: find_None_iff)
    then show ?thesis
      using assms find_columns_map_of [OF synonyms_keys] by simp
  next
    case (Some k)
    with r have "k = c" by (simp add: rename_label_def)
    with Some have "(c, l) \<in> set (find_columns synonyms cols)"
      using rename_map_Some [OF find_columns_distinct [OF synonyms_disjoint]] by simp
    then show ?thesis
      by (metis find_columns_keys map_of_eq_None_iff image_eqI fst_conv)
  qed
next
  assume "map_of (find_columns synonyms cols) c \<noteq> None"
  then obtain s where s: "map_of (find_columns synonyms cols) c = Some s" by auto
  then have f: "find (\<lambda>opt. opt \<in> set cols) options = Some s"
    using assms find_columns_map_of [OF synonyms_keys] by simp
  then have "s \<in> set cols"
    using find_in_options [of "\<lambda>opt. opt \<in> set cols" options s] by simp
  moreover have "rename_label (rename_map (find_columns synonyms cols)) s = c"
    using assms f by (rule bound_label)
  ultimately show "c \<in> set (map (rename_label (rename_map (find_columns synonyms cols))) cols)"
    by force
qed

lemma labels_rename_columns: "labels (rename_columns f df) = map f (labels df)"
  by (simp add: labels_def rename_columns_def split_def)

lemma rows_rename_columns: "rows (rename_columns f df) = rows df"
  by (simp add: rename_columns_def)

lemma update_cells_none: "\<forall>l \<in> set ls. \<not> p l \<Longrightarrow> update_cells p f ls r = r"
  by (induction p f ls r rule: update_cells.induct) auto

lemma update_cells_twice:
  "\<forall>l. \<not> (p l \<and> q l) \<Longrightarrow>
     update_cells q f ls (update_cells p f ls r) = update_cells (\<lambda>l. p l \<or> q l) f ls r"
  by (induction p f ls r rule: update_cells.induct) auto

lemma length_update_cells: "length (update_cells p f ls r) = length r"
  by (induction p f ls r rule: update_cells.induct) auto

lemma dropna_Inr:
  "dropna cs df = Inr df' \<longleftrightarrow>
     set cs \<subseteq> set (labels df) \<and> df' = df\<lparr>rows := filter (keeps cs (labels df)) (rows df)\<rparr>"
  by (auto simp: dropna_def)

lemma dropna_labels: "dropna cs df = Inr df' \<Longrightarrow> labels df' = labels df"
  by (auto simp: dropna_def labels_def split: if_splits)

lemma dropna_rows:
  "dropna cs df = Inr df' \<Longrightarrow> rows df' = filter (keeps cs (labels df)) (rows df)"
  by (auto simp: dropna_def split: if_splits)

lemma convert_coord_labels: "convert_coord to_num c df = Inr df' \<Longrightarrow> labels df' = labels df"
  by (auto simp: convert_coord_def labels_def split: if_splits intro!: map_idI)

lemma convert_coord_rows:
  "convert_coord to_num c df = Inr df' \<Longrightarrow>
     rows df' = map (update_cells (\<lambda>l. l = c) (to_numeric to_num) (labels df)) (rows df)"
proof (cases "c \<in> set (labels df)")
  case True
  assume "convert_coord to_num c df = Inr df'"
  with True show ?thesis
    by (auto simp: convert_coord_def split: if_splits)
next
  case False
  assume "convert_coord to_num c df = Inr df'"
  with False have "df' = df" by (simp add: convert_coord_def)
  moreover have "\<And>r. update_cells (\<lambda>l. l = c) (to_numeric to_num) (labels df) r = r"
    using False by (intro update_cells_none) auto
  then have "map (update_cells (\<lambda>l. l = c) (to_numeric to_num) (labels df)) (rows df) = rows df"
    by (intro map_idI)
  ultimately show ?thesis by simp
qed

lemma convert_coord_Inr_iff:
  "(\<exists>df'. convert_coord to_num c df = Inr df') \<longleftrightarrow> length (filter (\<lambda>l. l = c) (labels df)) \<le> 1"
proof (cases "c \<in> set (labels df)")
  case True
  then have "filter (\<lambda>l. l = c) (labels df) \<noteq> []"
    by (auto simp: filter_empty_conv)
  then have "0 < length (filter (\<lambda>l. l = c) (labels df))"
    by simp
  then have "length (filter (\<lambda>l. l = c) (labels df)) \<le> 1
      \<longleftrightarrow> length (filter (\<lambda>l. l = c) (labels df)) = 1"
    by arith
  with True show ?thesis
    by (simp add: convert_coord_def)
next
  case False
  then have "filter (\<lambda>l. l = c) (labels df) = []"
    by (auto simp: filter_empty_conv)
  with False show ?thesis
    by (simp add: convert_coord_def)
qed


lemma labels_renamed:
  "labels (rename_columns (rename_label (rename_map (find_columns synonyms
       (labels (rename_columns norm_col df0))))) (rename_columns norm_col df0))
     = renamed_labels (labels df0)"
  by (simp add: labels_rename_columns renamed_labels_def Let_def)

lemma load_data_missing:
  assumes "\<not> set required_columns \<subseteq> set (renamed_labels (labels df0))"
  shows "load_data to_num (Inr df0) =
           Inl (MissingColumns (filter (\<lambda>c. c \<notin> set (renamed_labels (labels df0))) required_columns)
                  (renamed_labels (labels df0)))"
proof -
  from assms have "filter (\<lambda>c. c \<notin> set (renamed_labels (labels df0))) required_columns \<noteq> []"
    by (auto simp: filter_empty_conv)
  then show ?thesis
    by (simp add: load_data_def Let_def labels_renamed)
qed

lemma load_data_steps:
  assumes "set required_columns \<subseteq> set (renamed_labels (labels df0))"
  shows "load_data to_num (Inr df0) = Inr T \<longleftrightarrow>
     (\<exists>df3 df4.
        dropna [''name'', ''state'']
          (rename_columns (rename_label (rename_map (find_columns synonyms
             (labels (rename_columns norm_col df0))))) (rename_columns norm_col df0)) = Inr df3
        \<and> convert_coord to_num ''latitude'' df3 = Inr df4
        \<and> convert_coord to_num ''longitude'' df4 = Inr T)"
proof -
  from assms have "filter (\<lambda>c. c \<notin> set (renamed_labels (labels df0))) required_columns = []"
    by (auto simp: filter_empty_conv)
  then show ?thesis
    by (simp add: load_data_def Let_def labels_renamed and_then_def
             split: sum.splits exn.splits)
qed

lemma load_data_Inr_required:
  assumes "load_data to_num (Inr df0) = Inr T"
  shows "set required_columns \<subseteq> set (renamed_labels (labels df0))"
proof (rule ccontr)
  assume "\<not> set required_columns \<subseteq> set (renamed_labels (labels df0))"
  then have "\<exists>e. load_data to_num (Inr df0) = Inl e"
    using load_data_missing by blast
  with assms show False by auto
qed

lemma load_data_result:
  assumes "load_data to_num (Inr df0) = Inr T"
  shows "labels T = renamed_labels (labels df0)"
    and "rows T =
           map (update_cells (\<lambda>l. l = ''latitude'' \<or> l = ''longitude'') (to_numeric to_num)
                  (renamed_labels (labels df0)))
               (filter (keeps [''name'', ''state''] (renamed_labels (labels df0))) (rows df0))"
    and "length (filter (\<lambda>l. l = ''latitude'') (renamed_labels (labels df0))) \<le> 1"
    and "length (filter (\<lambda>l. l = ''longitude'') (renamed_labels (labels df0))) \<le> 1"
proof -
  let ?L = "renamed_labels (labels df0)"
  let ?df2 = "rename_columns (rename_label (rename_map (find_columns synonyms
             (labels (rename_columns norm_col df0))))) (rename_columns norm_col df0)"
  from assms obtain df3 df4 where d: "dropna [''name'', ''state''] ?df2 = Inr df3"
    and c1: "convert_coord to_num ''latitude'' df3 = Inr df4"
    and c2: "convert_coord to_num ''longitude'' df4 = Inr T"
    using load_data_steps [OF load_data_Inr_required [OF assms]] assms by blast
  from d have l3: "labels df3 = ?L"
    using dropna_labels [OF d] by (simp add: labels_renamed)
  from d have r3: "rows df3 = filter (keeps [''name'', ''state''] ?L) (rows df0)"
    using dropna_rows [OF d] by (simp add: labels_renamed rows_rename_columns)
  from c1 have l4: "labels df4 = ?L" using l3 convert_coord_labels by metis
  from c2 show "labels T = ?L" using l4 convert_coord_labels by metis
  have r4: "rows df4 = map (update_cells (\<lambda>l. l = ''latitude'') (to_numeric to_num) ?L) (rows df3)"
    using convert_coord_rows [OF c1] l3 by simp
  have rT: "rows T = map (update_cells (\<lambda>l. l = ''longitude'') (to_numeric to_num) ?L) (rows df4)"
    using convert_coord_rows [OF c2] l4 by simp
  have "\<And>r. update_cells (\<lambda>l. l = ''longitude'') (to_numeric to_num) ?L
            (update_cells (\<lambda>l. l = ''latitude'') (to_numeric to_num) ?L r)
          = update_cells (\<lambda>l. l = ''latitude'' \<or> l = ''longitude'') (to_numeric to_num) ?L r"
    by (rule update_cells_twice) simp
  with rT r4 r3 show "rows T =
           map (update_cells (\<lambda>l. l = ''latitude'' \<or> l = ''longitude'') (to_numeric to_num) ?L)
               (filter (keeps [''name'', ''state''] ?L) (rows df0))"
    by (simp add: comp_def)
  show "length (filter (\<lambda>l. l = ''latitude'') ?L) \<le> 1"
    using convert_coord_Inr_iff [of to_num "''latitude''" df3] c1 l3 by auto
  show "length (filter (\<lambda>l. l = ''longitude'') ?L) \<le> 1"
    using convert_coord_Inr_iff [of to_num "''longitude''" df4] c2 l4 by auto
qed

lemma load_data_succeeds:
  assumes "set required_columns \<subseteq> set (renamed_labels (labels df0))"
    and "length (filter (\<lambda>l. l = ''latitude'') (renamed_labels (labels df0))) \<le> 1"
    and "length (filter (\<lambda>l. l = ''longitude'') (renamed_labels (labels df0))) \<le> 1"
  shows "\<exists>T. load_data to_num (Inr df0) = Inr T"
proof -
  let ?L = "renamed_labels (labels df0)"
  let ?df2 = "rename_columns (rename_label (rename_map (find_columns synonyms
             (labels (rename_columns norm_col df0))))) (rename_columns norm_col df0)"
  have "set [''name'', ''state''] \<subseteq> set (labels ?df2)"
    using assms(1) by (simp add: labels_renamed required_columns_def)
  then obtain df3 where d: "dropna [''name'', ''state''] ?df2 = Inr df3"
    by (simp add: dropna_Inr)
  then have l3: "labels df3 = ?L"
    using dropna_labels [of "[''name'', ''state'']" ?df2 df3] by (simp add: labels_renamed)
  obtain df4 where c1: "convert_coord to_num ''latitude'' df3 = Inr df4"
    using convert_coord_Inr_iff [of to_num "''latitude''" df3] assms(2) l3 by auto
  then have l4: "labels df4 = ?L" using l3 convert_coord_labels by metis
  obtain T where c2: "convert_coord to_num ''longitude'' df4 = Inr T"
    using convert_coord_Inr_iff [of to_num "''longitude''" df4] assms(3) l4 by auto
  with d c1 show ?thesis
    using load_data_steps [OF assms(1)] by blast
qed

lemma convert_coord_columns:
  "convert_coord to_num c df = Inr df' \<Longrightarrow>
     columns df' = map (\<lambda>(l, t). if l = c then (l, NumericT) else (l, t)) (columns df)"
proof (cases "c \<in> set (labels df)")
  case True
  assume "convert_coord to_num c df = Inr df'"
  with True show ?thesis
    by (auto simp: convert_coord_def split: if_splits)
next
  case False
  assume "convert_coord to_num c df = Inr df'"
  with False have "df' = df" by (simp add: convert_coord_def)
  moreover have "map (\<lambda>(l, t). if l = c then (l, NumericT) else (l, t)) (columns df) = columns df"
    using False by (intro map_idI) (force simp: labels_def)
  ultimately show ?thesis by simp
qed

lemma dropna_columns: "dropna cs df = Inr df' \<Longrightarrow> columns df' = columns df"
  by (auto simp: dropna_def split: if_splits)

lemma columns_renamed:
  "columns (rename_columns (rename_label (rename_map (find_columns synonyms
       (labels (rename_columns norm_col df0))))) (rename_columns norm_col df0))
     = zip (renamed_labels (labels df0)) (map snd (columns df0))"
  by (simp add: labels_rename_columns renamed_labels_def Let_def rename_columns_def labels_def
        zip_map_map split_def zip_same_conv_map comp_def)

lemma load_data_columns:
  assumes "load_data to_num (Inr df0) = Inr T"
  shows "columns T =
           map (\<lambda>(l, t). if l = ''latitude'' \<or> l = ''longitude'' then (l, NumericT) else (l, t))
             (zip (renamed_labels (labels df0)) (map snd (columns df0)))"
proof -
  let ?df2 = "rename_columns (rename_label (rename_map (find_columns synonyms
             (labels (rename_columns norm_col df0))))) (rename_columns norm_col df0)"
  from assms obtain df3 df4 where d: "dropna [''name'', ''state''] ?df2 = Inr df3"
    and c1: "convert_coord to_num ''latitude'' df3 = Inr df4"
    and c2: "convert_coord to_num ''longitude'' df4 = Inr T"
    using load_data_steps [OF load_data_Inr_required [OF assms]] assms by blast
  have "columns T = map (\<lambda>(l, t). if l = ''longitude'' then (l, NumericT) else (l, t))
      (map (\<lambda>(l, t). if l = ''latitude'' then (l, NumericT) else (l, t)) (columns ?df2))"
    using convert_coord_columns [OF c2] convert_coord_columns [OF c1] dropna_columns [OF d]
    by simp
  also have "\<dots> = map (\<lambda>(l, t). if l = ''latitude'' \<or> l = ''longitude'' then (l, NumericT) else (l, t))
      (columns ?df2)"
    by (auto simp: split_def)
  finally show ?thesis by (simp only: columns_renamed)
qed

lemma load_data_eval:
  fixes df0 :: "'n frame"
  assumes "renamed_labels (labels df0) = L"
    and "set required_columns \<subseteq> set L"
    and "length (filter (\<lambda>l. l = ''latitude'') L) \<le> 1"
    and "length (filter (\<lambda>l. l = ''longitude'') L) \<le> 1"
  shows "load_data to_num (Inr df0) =
     Inr \<lparr>columns = map (\<lambda>(l, t). if l = ''latitude'' \<or> l = ''longitude'' then (l, NumericT) else (l, t))
                       (zip L (map snd (columns df0))),
          rows = map (update_cells (\<lambda>l. l = ''latitude'' \<or> l = ''longitude'') (to_numeric to_num) L)
                   (filter (keeps [''name'', ''state''] L) (rows df0))\<rparr>"
proof -
  obtain T where T: "load_data to_num (Inr df0) = Inr T"
    using load_data_succeeds [of df0 to_num] assms by auto
  have "T = \<lparr>columns = columns T, rows = rows T\<rparr>" by simp
  then show ?thesis
    unfolding T using load_data_columns [OF T] load_data_result(2) [OF T] assms(1) by simp
qed


lemma cells_at_update_cells:
  "cells_at ls c (update_cells p f ls r) = (if p c then map f (cells_at ls c r) else cells_at ls c r)"
  by (induction p f ls r rule: update_cells.induct) (auto simp: cells_at_def)

lemma find_first:
  "set pre \<inter> set cols = {} \<Longrightarrow> s \<in> set cols \<Longrightarrow>
     find (\<lambda>opt. opt \<in> set cols) (pre @ s # post) = Some s"
  by (induction pre) auto

lemma required_subset: "set required_columns \<subseteq> fst ` set synonyms"
  by (simp add: required_columns_def synonyms_def)

lemma required_canonical: "c \<in> set required_columns \<Longrightarrow> \<exists>options. (c, options) \<in> set synonyms"
  using required_subset by fastforce

lemma to_numeric_not_Str: "to_numeric to_num v \<noteq> Str s"
  by (auto simp: to_numeric_def split: cell.splits option.splits)

section \<open>The scenarios, evaluated\<close>

lemmas norm_defs = norm_col_def strip_def is_space_def lower_def lower_char_def replace_space_def
lemmas read_defs = read_fields_def read_cell_def na_values_def parse_decimal_def
  unsigned_decimal_def digit_of_def Let_def
lemmas rename_defs = renamed_labels_def synonyms_def rename_map_def rename_label_def

lemma scenario_A_frame:
  "scenario_A = \<lparr>columns = [(''Destination'', ObjectT), (''Region'', ObjectT),
          (''About'', ObjectT), (''Attraction'', ObjectT), (''Photo'', ObjectT),
          (''Lat'', NumericT), (''Lng'', NumericT)],
        rows = [[Str ''Taj Mahal'', Str ''Uttar Pradesh'', Str ''Iconic mausoleum'',
                 Str ''Taj Mahal;sunrise view'', Str ''http://x/img.jpg'',
                 Num (271751 / 10000), Num (780421 / 10000)]]\<rparr>"
  by (simp add: scenario_A_def read_defs)

lemma no_state_frame:
  "no_state_csv = \<lparr>columns = [(''Destination'', ObjectT), (''About'', ObjectT),
          (''Attraction'', ObjectT), (''Photo'', ObjectT)],
        rows = [[Str ''Taj Mahal'', Str ''Iconic mausoleum'',
                 Str ''Taj Mahal;sunrise view'', Str ''http://x/img.jpg'']]\<rparr>"
  by (simp add: no_state_csv_def read_defs)

lemma no_state_slugs:
  "map norm_col (labels no_state_csv) = [''destination'', ''about'', ''attraction'', ''photo'']"
  by (simp add: no_state_frame labels_def norm_defs)

lemma no_state_found:
  "find_columns synonyms [''destination'', ''about'', ''attraction'', ''photo'']
     = [(''name'', ''destination''), (''description'', ''about''),
        (''popular_attractions'', ''attraction''), (''image_url'', ''photo'')]"
  by (simp add: synonyms_def)

lemma no_state_renamed:
  "renamed_labels (labels no_state_csv)
     = [''name'', ''description'', ''popular_attractions'', ''image_url'']"
  by (simp add: renamed_labels_def no_state_slugs no_state_found rename_map_def rename_label_def)

lemma no_state_load:
  "load_data parse_decimal (Inr no_state_csv) =
     Inl (MissingColumns [''state'']
            [''name'', ''description'', ''popular_attractions'', ''image_url''])"
  by (subst load_data_missing) (simp_all add: no_state_renamed required_columns_def)

lemma blank_name_frame:
  "blank_name_csv = \<lparr>columns = [(''name'', ObjectT), (''state'', ObjectT),
          (''description'', ObjectT), (''popular_attractions'', ObjectT), (''image_url'', ObjectT)],
        rows = [[Str ''   '', Str ''Goa'', Str ''Beaches'', Str ''Baga'', Str ''http://x/goa.jpg''],
                [NaN, Str ''Kerala'', Str ''Backwaters'', Str ''Alleppey'', Str ''http://x/kerala.jpg''],
                [Str ''Amber Fort'', Str ''Rajasthan'', Str ''Hilltop palace'', Str ''Sheesh Mahal'',
                 Str ''http://x/amber.jpg'']]\<rparr>"
  by (simp add: blank_name_csv_def read_defs)

lemma blank_name_renamed:
  "renamed_labels (labels blank_name_csv)
     = [''name'', ''state'', ''description'', ''popular_attractions'', ''image_url'']"
  by (simp add: blank_name_frame labels_def norm_defs rename_defs)

lemma blank_name_load:
  "load_data parse_decimal (Inr blank_name_csv) =
     Inr \<lparr>columns = [(''name'', ObjectT), (''state'', ObjectT),
          (''description'', ObjectT), (''popular_attractions'', ObjectT), (''image_url'', ObjectT)],
        rows = [[Str ''   '', Str ''Goa'', Str ''Beaches'', Str ''Baga'', Str ''http://x/goa.jpg''],
                [Str ''Amber Fort'', Str ''Rajasthan'', Str ''Hilltop palace'', Str ''Sheesh Mahal'',
                 Str ''http://x/amber.jpg'']]\<rparr>"
  by (subst load_data_eval [OF blank_name_renamed])
     (simp_all add: required_columns_def blank_name_frame keeps_def cells_at_def to_numeric_def)

lemma bad_latitude_frame:
  "bad_latitude_csv = \<lparr>columns = [(''name'', ObjectT), (''state'', ObjectT),
          (''description'', ObjectT), (''popular_attractions'', ObjectT), (''image_url'', ObjectT),
          (''latitude'', ObjectT), (''longitude'', NumericT)],
        rows = [[Str ''Taj Mahal'', Str ''Uttar Pradesh'', Str ''Iconic mausoleum'',
                 Str ''Taj Mahal;sunrise view'', Str ''http://x/img.jpg'',
                 Str ''abc'', Num (780421 / 10000)],
                [Str ''Amber Fort'', Str ''Rajasthan'', Str ''Hilltop palace'', Str ''Sheesh Mahal'',
                 Str ''http://x/amber.jpg'', Str ''26.9855'', Num (758513 / 10000)]]\<rparr>"
  by (simp add: bad_latitude_csv_def read_defs)

lemma bad_latitude_renamed:
  "renamed_labels (labels bad_latitude_csv)
     = [''name'', ''state'', ''description'', ''popular_attractions'', ''image_url'',
        ''latitude'', ''longitude'']"
  by (simp add: bad_latitude_frame labels_def norm_defs rename_defs)

lemma bad_latitude_rows:
  "map (update_cells (\<lambda>l. l = ''latitude'' \<or> l = ''longitude'') (to_numeric parse_decimal)
          [''name'', ''state'', ''description'', ''popular_attractions'', ''image_url'',
           ''latitude'', ''longitude''])
     (filter (keeps [''name'', ''state'']
          [''name'', ''state'', ''description'', ''popular_attractions'', ''image_url'',
           ''latitude'', ''longitude'']) (rows bad_latitude_csv))
   = [[Str ''Taj Mahal'', Str ''Uttar Pradesh'', Str ''Iconic mausoleum'',
       Str ''Taj Mahal;sunrise view'', Str ''http://x/img.jpg'', NaN, Num (780421 / 10000)],
      [Str ''Amber Fort'', Str ''Rajasthan'', Str ''Hilltop palace'', Str ''Sheesh Mahal'',
       Str ''http://x/amber.jpg'', Num (269855 / 10000), Num (758513 / 10000)]]"
  by (simp add: bad_latitude_frame keeps_def cells_at_def to_numeric_def parse_decimal_def
        unsigned_decimal_def digit_of_def Let_def)

lemma extra_column_frame:
  "extra_column_csv = \<lparr>columns = [(''Name'', ObjectT), (''State'', ObjectT),
          (''Description'', ObjectT), (''Popular Attractions'', ObjectT), (''Image URL'', ObjectT),
          (''Best Season'', ObjectT)],
        rows = [[Str ''Taj Mahal'', Str ''Uttar Pradesh'', Str ''Iconic mausoleum'',
                 Str ''Taj Mahal;sunrise view'', Str ''http://x/img.jpg'', Str ''Winter'']]\<rparr>"
  by (simp add: extra_column_csv_def read_defs)

lemma extra_column_renamed:
  "renamed_labels (labels extra_column_csv)
     = [''name'', ''state'', ''description'', ''popular_attractions'', ''image_url'',
        ''best_season'']"
  by (simp add: extra_column_frame labels_def norm_defs rename_defs)

lemma extra_column_load:
  "load_data parse_decimal (Inr extra_column_csv) =
     Inr \<lparr>columns = [(''name'', ObjectT), (''state'', ObjectT),
          (''description'', ObjectT), (''popular_attractions'', ObjectT), (''image_url'', ObjectT),
          (''best_season'', ObjectT)],
        rows = [[Str ''Taj Mahal'', Str ''Uttar Pradesh'', Str ''Iconic mausoleum'',
                 Str ''Taj Mahal;sunrise view'', Str ''http://x/img.jpg'', Str ''Winter'']]\<rparr>"
  by (subst load_data_eval [OF extra_column_renamed])
     (simp_all add: required_columns_def extra_column_frame keeps_def cells_at_def to_numeric_def)

lemma half_position_frame:
  "half_position_csv = \<lparr>columns = [(''Destination'', ObjectT), (''Region'', ObjectT),
          (''About'', ObjectT), (''Attraction'', ObjectT), (''Photo'', ObjectT),
          (''Lat'', NumericT), (''Lng'', ObjectT)],
        rows = [[Str ''Taj Mahal'', Str ''Uttar Pradesh'', Str ''Iconic mausoleum'',
                 Str ''Taj Mahal;sunrise view'', Str ''http://x/img.jpg'',
                 Num (271751 / 10000), Str ''unknown'']]\<rparr>"
  by (simp add: half_position_csv_def read_defs)

lemma half_position_renamed:
  "renamed_labels (labels half_position_csv)
     = [''name'', ''state'', ''description'', ''popular_attractions'', ''image_url'',
        ''latitude'', ''longitude'']"
  by (simp add: half_position_frame labels_def norm_defs rename_defs)

lemma half_position_load:
  "load_data parse_decimal (Inr half_position_csv) =
     Inr \<lparr>columns = [(''name'', ObjectT), (''state'', ObjectT),
          (''description'', ObjectT), (''popular_attractions'', ObjectT), (''image_url'', ObjectT),
          (''latitude'', NumericT), (''longitude'', NumericT)],
        rows = [[Str ''Taj Mahal'', Str ''Uttar Pradesh'', Str ''Iconic mausoleum'',
                 Str ''Taj Mahal;sunrise view'', Str ''http://x/img.jpg'',
                 Num (271751 / 10000), NaN]]\<rparr>"
  by (subst load_data_eval [OF half_position_renamed])
     (simp_all add: required_columns_def half_position_frame keeps_def cells_at_def to_numeric_def
        parse_decimal_def unsigned_decimal_def digit_of_def Let_def)


lemma scenario_A_renamed:
  "renamed_labels (labels scenario_A)
     = [''name'', ''state'', ''description'', ''popular_attractions'', ''image_url'',
        ''latitude'', ''longitude'']"
  by (simp add: scenario_A_frame labels_def norm_defs rename_defs)

lemma scenario_A_load:
  "load_data parse_decimal (Inr scenario_A) =
     Inr \<lparr>columns = [(''name'', ObjectT), (''state'', ObjectT), (''description'', ObjectT),
             (''popular_attractions'', ObjectT), (''image_url'', ObjectT),
             (''latitude'', NumericT), (''longitude'', NumericT)],
          rows = [[Str ''Taj Mahal'', Str ''Uttar Pradesh'', Str ''Iconic mausoleum'',
                   Str ''Taj Mahal;sunrise view'', Str ''http://x/img.jpg'',
                   Num (271751 / 10000), Num (780421 / 10000)]]\<rparr>"
  by (subst load_data_eval [OF scenario_A_renamed])
     (simp_all add: required_columns_def scenario_A_frame keeps_def cells_at_def to_numeric_def)

section \<open>The claims about the loader\<close>

text \<open>
  Claim C1. The file of scenario A, with the header
  \<^verbatim>\<open>Destination,Region,About,Attraction,Photo,Lat,Lng\<close> and one row, loads to a table of
  one record whose columns are the seven canonical names in the order of the file, with
  latitude \<open>27.1751\<close>. In general, take a canonical name \<open>c\<close>, a synonym \<open>s\<close> of its list,
  and a header \<open>h\<close> that consists of whitespace, a body that neither begins nor ends with
  whitespace, and whitespace again, where \<open>s\<close> is the body with \<open>A\<close>..\<open>Z\<close> turned into
  \<open>a\<close>..\<open>z\<close> and then every space into an underscore. When none of the synonyms listed
  before \<open>s\<close> is a normalised header, the header normalises to \<open>s\<close>, \<open>found\<close> binds \<open>c\<close>
  to \<open>s\<close>, and the column of \<open>h\<close> is renamed to \<open>c\<close>.
\<close>

theorem synonym_resolution:
  assumes "(c, pre @ s # post) \<in> set synonyms"
    and "ws = [CHR '' '', CHR 0x09, CHR 0x0A, CHR 0x0B, CHR 0x0C, CHR 0x0D,
               CHR 0x1C, CHR 0x1D, CHR 0x1E, CHR 0x1F]"
    and "h = lead @ body @ trail"
    and "set lead \<subseteq> set ws" and "set trail \<subseteq> set ws"
    and "body \<noteq> []" and "hd body \<notin> set ws" and "last body \<notin> set ws"
    and "s = map (\<lambda>ch. if ch = CHR '' '' then CHR ''_'' else ch)
               (map (\<lambda>ch. case map_of (zip ''ABCDEFGHIJKLMNOPQRSTUVWXYZ''
                                             ''abcdefghijklmnopqrstuvwxyz'') ch of
                             None \<Rightarrow> ch | Some d \<Rightarrow> d) body)"
    and "h \<in> set hs"
    and "set pre \<inter> set (map norm_col hs) = {}"
  shows "load_data parse_decimal (Inr scenario_A) =
           Inr \<lparr>columns = [(''name'', ObjectT), (''state'', ObjectT), (''description'', ObjectT),
                   (''popular_attractions'', ObjectT), (''image_url'', ObjectT),
                   (''latitude'', NumericT), (''longitude'', NumericT)],
                rows = [[Str ''Taj Mahal'', Str ''Uttar Pradesh'', Str ''Iconic mausoleum'',
                         Str ''Taj Mahal;sunrise view'', Str ''http://x/img.jpg'',
                         Num (271751 / 10000), Num (780421 / 10000)]]\<rparr>
       \<and> norm_col h = s
       \<and> map_of (find_columns synonyms (map norm_col hs)) c = Some s
       \<and> rename_label (rename_map (find_columns synonyms (map norm_col hs))) (norm_col h) = c"
proof -
  have n: "norm_col h = s"
    unfolding assms(3) assms(9)
    using assms(2) assms(4-8) by (rule norm_col_trimmed)
  have s: "s \<in> set (map norm_col hs)" using assms(10) n by auto
  have f: "find (\<lambda>opt. opt \<in> set (map norm_col hs)) (pre @ s # post) = Some s"
    using assms(11) s by (rule find_first)
  have "map_of (find_columns synonyms (map norm_col hs)) c = Some s"
    using find_columns_map_of [OF synonyms_keys assms(1)] f by simp
  moreover have "rename_label (rename_map (find_columns synonyms (map norm_col hs))) (norm_col h) = c"
    using bound_label [OF assms(1) f] n by simp
  ultimately show ?thesis
    using scenario_A_load n by simp
qed

theorem synonym_resolution_witness:
  "(''popular_attractions'',
      [''popular_attractions'', ''attractions''] @ ''popular_attraction'' # [''attraction''])
     \<in> set synonyms
   \<and> set [CHR 0x09, CHR '' ''] \<subseteq> set [CHR '' '', CHR 0x09, CHR 0x0A, CHR 0x0B, CHR 0x0C,
          CHR 0x0D, CHR 0x1C, CHR 0x1D, CHR 0x1E, CHR 0x1F]
   \<and> set '' '' \<subseteq> set [CHR '' '', CHR 0x09, CHR 0x0A, CHR 0x0B, CHR 0x0C,
          CHR 0x0D, CHR 0x1C, CHR 0x1D, CHR 0x1E, CHR 0x1F]
   \<and> ''Popular Attraction'' \<noteq> []
   \<and> hd ''Popular Attraction'' \<notin> set [CHR '' '', CHR 0x09, CHR 0x0A, CHR 0x0B, CHR 0x0C,
          CHR 0x0D, CHR 0x1C, CHR 0x1D, CHR 0x1E, CHR 0x1F]
   \<and> last ''Popular Attraction'' \<notin> set [CHR '' '', CHR 0x09, CHR 0x0A, CHR 0x0B, CHR 0x0C,
          CHR 0x0D, CHR 0x1C, CHR 0x1D, CHR 0x1E, CHR 0x1F]
   \<and> ''popular_attraction'' =
       map (\<lambda>ch. if ch = CHR '' '' then CHR ''_'' else ch)
         (map (\<lambda>ch. case map_of (zip ''ABCDEFGHIJKLMNOPQRSTUVWXYZ''
                                       ''abcdefghijklmnopqrstuvwxyz'') ch of
                       None \<Rightarrow> ch | Some d \<Rightarrow> d) ''Popular Attraction'')
   \<and> [CHR 0x09, CHR '' ''] @ ''Popular Attraction'' @ '' ''
       \<in> set [''Attraction'', [CHR 0x09, CHR '' ''] @ ''Popular Attraction'' @ '' '']
   \<and> set [''popular_attractions'', ''attractions'']
       \<inter> set (map norm_col
                [''Attraction'', [CHR 0x09, CHR '' ''] @ ''Popular Attraction'' @ '' '']) = {}
   \<and> norm_col ([CHR 0x09, CHR '' ''] @ ''Popular Attraction'' @ '' '') = ''popular_attraction''
   \<and> map_of (find_columns synonyms (map norm_col
         [''Attraction'', [CHR 0x09, CHR '' ''] @ ''Popular Attraction'' @ '' '']))
       ''popular_attractions'' = Some ''popular_attraction''
   \<and> rename_label (rename_map (find_columns synonyms (map norm_col
         [''Attraction'', [CHR 0x09, CHR '' ''] @ ''Popular Attraction'' @ '' ''])))
       (norm_col ([CHR 0x09, CHR '' ''] @ ''Popular Attraction'' @ '' ''))
       = ''popular_attractions''"
proof -
  have h1: "(''popular_attractions'',
      [''popular_attractions'', ''attractions''] @ ''popular_attraction'' # [''attraction''])
     \<in> set synonyms"
    by (simp add: synonyms_def)
  have h2: "[CHR '' '', CHR 0x09, CHR 0x0A, CHR 0x0B, CHR 0x0C, CHR 0x0D, CHR 0x1C, CHR 0x1D,
      CHR 0x1E, CHR 0x1F] = [CHR '' '', CHR 0x09, CHR 0x0A, CHR 0x0B, CHR 0x0C, CHR 0x0D,
      CHR 0x1C, CHR 0x1D, CHR 0x1E, CHR 0x1F]"
    by (rule refl)
  have h3: "[CHR 0x09, CHR '' ''] @ ''Popular Attraction'' @ '' ''
      = [CHR 0x09, CHR '' ''] @ ''Popular Attraction'' @ '' ''"
    by (rule refl)
  have h4: "set [CHR 0x09, CHR '' ''] \<subseteq> set [CHR '' '', CHR 0x09, CHR 0x0A, CHR 0x0B, CHR 0x0C,
          CHR 0x0D, CHR 0x1C, CHR 0x1D, CHR 0x1E, CHR 0x1F]"
    by simp
  have h5: "set '' '' \<subseteq> set [CHR '' '', CHR 0x09, CHR 0x0A, CHR 0x0B, CHR 0x0C,
          CHR 0x0D, CHR 0x1C, CHR 0x1D, CHR 0x1E, CHR 0x1F]"
    by simp
  have h6: "''Popular Attraction'' \<noteq> []" by simp
  have h7: "hd ''Popular Attraction'' \<notin> set [CHR '' '', CHR 0x09, CHR 0x0A, CHR 0x0B, CHR 0x0C,
          CHR 0x0D, CHR 0x1C, CHR 0x1D, CHR 0x1E, CHR 0x1F]"
    by simp
  have h8: "last ''Popular Attraction'' \<notin> set [CHR '' '', CHR 0x09, CHR 0x0A, CHR 0x0B, CHR 0x0C,
          CHR 0x0D, CHR 0x1C, CHR 0x1D, CHR 0x1E, CHR 0x1F]"
    by simp
  have h9: "''popular_attraction'' =
       map (\<lambda>ch. if ch = CHR '' '' then CHR ''_'' else ch)
         (map (\<lambda>ch. case map_of (zip ''ABCDEFGHIJKLMNOPQRSTUVWXYZ''
                                       ''abcdefghijklmnopqrstuvwxyz'') ch of
                       None \<Rightarrow> ch | Some d \<Rightarrow> d) ''Popular Attraction'')"
    by simp
  have h10: "[CHR 0x09, CHR '' ''] @ ''Popular Attraction'' @ '' ''
       \<in> set [''Attraction'', [CHR 0x09, CHR '' ''] @ ''Popular Attraction'' @ '' '']"
    by simp
  have h11: "set [''popular_attractions'', ''attractions'']
       \<inter> set (map norm_col
                [''Attraction'', [CHR 0x09, CHR '' ''] @ ''Popular Attraction'' @ '' '']) = {}"
    by (simp add: norm_defs)
  note r = synonym_resolution [OF h1 h2 h3 h4 h5 h6 h7 h8 h9 h10 h11]
  from h1 h4 h5 h6 h7 h8 h9 h10 h11 r [THEN conjunct2, THEN conjunct1]
    r [THEN conjunct2, THEN conjunct2, THEN conjunct1]
    r [THEN conjunct2, THEN conjunct2, THEN conjunct2]
  show ?thesis by (intro conjI)
qed

text \<open>
  Claim C2 says the failure reports the header slugs found in the file. On the file of
  scenario B (no state column) the second list of the report is \<^verbatim>\<open>df.columns\<close> after
  the renaming of line 82: it holds \<open>name\<close> where the file has \<open>destination\<close>.
\<close>

theorem missing_columns_counterexample:
  "load_data parse_decimal (Inr no_state_csv) =
     Inl (MissingColumns [''state'']
            [''name'', ''description'', ''popular_attractions'', ''image_url''])
   \<and> map norm_col (labels no_state_csv) = [''destination'', ''about'', ''attraction'', ''photo'']"
  using no_state_load no_state_slugs by simp

text \<open>
  Claim C2, amended. When a required canonical name is bound to no column, the load ends in
  \<open>MissingColumns\<close>, caught and reported, with exactly the unbound required names, in the
  order of \<^verbatim>\<open>required_columns\<close>, and with the labels of the frame after renaming: a bound
  column appears under its canonical name, any other under its slug.
\<close>

theorem missing_columns_reported:
  assumes "c \<in> set required_columns"
    and "map_of (find_columns synonyms (map norm_col (labels df0))) c = None"
  shows "load_data to_num (Inr df0) =
     Inl (MissingColumns
            (filter (\<lambda>c. map_of (find_columns synonyms (map norm_col (labels df0))) c = None)
               required_columns)
            (renamed_labels (labels df0)))"
proof -
  have iff: "k \<notin> set (renamed_labels (labels df0))
      \<longleftrightarrow> map_of (find_columns synonyms (map norm_col (labels df0))) k = None"
    if "k \<in> set required_columns" for k
  proof -
    from that obtain options where "(k, options) \<in> set synonyms"
      using required_canonical by blast
    then show ?thesis
      using label_present_iff [of k options "map norm_col (labels df0)"]
      by (simp add: renamed_labels_def Let_def)
  qed
  with assms have "\<not> set required_columns \<subseteq> set (renamed_labels (labels df0))"
    by auto
  moreover have "filter (\<lambda>c. c \<notin> set (renamed_labels (labels df0))) required_columns
      = filter (\<lambda>c. map_of (find_columns synonyms (map norm_col (labels df0))) c = None)
          required_columns"
    by (rule filter_cong) (simp_all add: iff)
  ultimately show ?thesis
    by (simp add: load_data_missing)
qed

theorem missing_columns_reported_witness:
  "''state'' \<in> set required_columns
   \<and> map_of (find_columns synonyms (map norm_col (labels no_state_csv))) ''state'' = None
   \<and> load_data parse_decimal (Inr no_state_csv) =
       Inl (MissingColumns
              (filter (\<lambda>c. map_of (find_columns synonyms (map norm_col (labels no_state_csv))) c = None)
                 required_columns)
              (renamed_labels (labels no_state_csv)))
   \<and> filter (\<lambda>c. map_of (find_columns synonyms (map norm_col (labels no_state_csv))) c = None)
        required_columns = [''state'']"
proof -
  have h1: "''state'' \<in> set required_columns" by (simp add: required_columns_def)
  have h2: "map_of (find_columns synonyms (map norm_col (labels no_state_csv))) ''state'' = None"
    by (simp add: no_state_slugs no_state_found)
  have h3: "filter (\<lambda>c. map_of (find_columns synonyms (map norm_col (labels no_state_csv))) c = None)
        required_columns = [''state'']"
    by (simp add: no_state_slugs no_state_found required_columns_def)
  from missing_columns_reported [OF h1 h2, of parse_decimal] h1 h2 h3 show ?thesis
    by (intro conjI)
qed

text \<open>
  Claim C3 says a row whose name is only whitespace is dropped. \<^verbatim>\<open>dropna\<close> drops missing
  cells only: of the three rows below the one with the empty name goes, the one whose name
  is three spaces stays.
\<close>

theorem blank_name_counterexample:
  "load_data parse_decimal (Inr blank_name_csv) =
     Inr \<lparr>columns = [(''name'', ObjectT), (''state'', ObjectT),
          (''description'', ObjectT), (''popular_attractions'', ObjectT), (''image_url'', ObjectT)],
        rows = [[Str ''   '', Str ''Goa'', Str ''Beaches'', Str ''Baga'', Str ''http://x/goa.jpg''],
                [Str ''Amber Fort'', Str ''Rajasthan'', Str ''Hilltop palace'', Str ''Sheesh Mahal'',
                 Str ''http://x/amber.jpg'']]\<rparr>
   \<and> strip ''   '' = []"
  using blank_name_load by (simp add: strip_def is_space_def)

text \<open>
  Claim C3, amended. The rows of a loaded table are the rows of the file that have no
  missing cell under \<open>name\<close> or \<open>state\<close>, in their original order (their coordinate cells
  converted); no cell is trimmed, so a name of whitespace is not missing.
\<close>

theorem rows_dropped_when_null:
  assumes "load_data to_num (Inr df0) = Inr T"
  shows "rows T =
     map (update_cells (\<lambda>l. l = ''latitude'' \<or> l = ''longitude'') (to_numeric to_num)
            (renamed_labels (labels df0)))
         (filter (\<lambda>r. NaN \<notin> set (cells_at (renamed_labels (labels df0)) ''name'' r)
                    \<and> NaN \<notin> set (cells_at (renamed_labels (labels df0)) ''state'' r))
            (rows df0))"
  using load_data_result(2) [OF assms] by (simp add: keeps_def [abs_def])

theorem rows_dropped_when_null_witness:
  "load_data parse_decimal (Inr blank_name_csv) =
     Inr \<lparr>columns = [(''name'', ObjectT), (''state'', ObjectT),
          (''description'', ObjectT), (''popular_attractions'', ObjectT), (''image_url'', ObjectT)],
        rows = [[Str ''   '', Str ''Goa'', Str ''Beaches'', Str ''Baga'', Str ''http://x/goa.jpg''],
                [Str ''Amber Fort'', Str ''Rajasthan'', Str ''Hilltop palace'', Str ''Sheesh Mahal'',
                 Str ''http://x/amber.jpg'']]\<rparr>
   \<and> [[Str ''   '', Str ''Goa'', Str ''Beaches'', Str ''Baga'', Str ''http://x/goa.jpg''],
       [Str ''Amber Fort'', Str ''Rajasthan'', Str ''Hilltop palace'', Str ''Sheesh Mahal'',
        Str ''http://x/amber.jpg'']] =
     map (update_cells (\<lambda>l. l = ''latitude'' \<or> l = ''longitude'') (to_numeric parse_decimal)
            (renamed_labels (labels blank_name_csv)))
         (filter (\<lambda>r. NaN \<notin> set (cells_at (renamed_labels (labels blank_name_csv)) ''name'' r)
                    \<and> NaN \<notin> set (cells_at (renamed_labels (labels blank_name_csv)) ''state'' r))
            (rows blank_name_csv))"
  using rows_dropped_when_null [OF blank_name_load] blank_name_load by simp

text \<open>
  Claim C4. Whether the load succeeds depends on the headers alone, not on what any cell
  holds: it does exactly when the required names are bound and no two columns bear the
  same coordinate label. When it succeeds, its rows are the rows kept by \<^verbatim>\<open>dropna\<close>, none
  removed by the conversion; in each, the cells under \<open>latitude\<close> and \<open>longitude\<close> are
  converted and every other cell is unchanged; a string becomes its number when it has one
  and \<open>NaN\<close> when it has none.
\<close>

theorem coordinate_coercion:
  "((\<exists>T. load_data to_num (Inr df0) = Inr T) \<longleftrightarrow>
       (set required_columns \<subseteq> set (renamed_labels (labels df0))
        \<and> length (filter (\<lambda>l. l = ''latitude'') (renamed_labels (labels df0))) \<le> 1
        \<and> length (filter (\<lambda>l. l = ''longitude'') (renamed_labels (labels df0))) \<le> 1))
   \<and> (\<forall>T. load_data to_num (Inr df0) = Inr T \<longrightarrow>
         rows T =
           map (update_cells (\<lambda>l. l = ''latitude'' \<or> l = ''longitude'') (to_numeric to_num)
                  (renamed_labels (labels df0)))
               (filter (keeps [''name'', ''state''] (renamed_labels (labels df0))) (rows df0)))
   \<and> (\<forall>r c. cells_at (renamed_labels (labels df0)) c
                 (update_cells (\<lambda>l. l = ''latitude'' \<or> l = ''longitude'') (to_numeric to_num)
                    (renamed_labels (labels df0)) r)
               = (if c = ''latitude'' \<or> c = ''longitude''
                  then map (to_numeric to_num) (cells_at (renamed_labels (labels df0)) c r)
                  else cells_at (renamed_labels (labels df0)) c r))
   \<and> (\<forall>s. to_numeric to_num (Str s) = (case to_num s of None \<Rightarrow> NaN | Some x \<Rightarrow> Num x))"
proof -
  have a: "(\<exists>T. load_data to_num (Inr df0) = Inr T) \<longleftrightarrow>
       (set required_columns \<subseteq> set (renamed_labels (labels df0))
        \<and> length (filter (\<lambda>l. l = ''latitude'') (renamed_labels (labels df0))) \<le> 1
        \<and> length (filter (\<lambda>l. l = ''longitude'') (renamed_labels (labels df0))) \<le> 1)"
  proof
    assume "\<exists>T. load_data to_num (Inr df0) = Inr T"
    then obtain T where T: "load_data to_num (Inr df0) = Inr T" by blast
    show "set required_columns \<subseteq> set (renamed_labels (labels df0))
        \<and> length (filter (\<lambda>l. l = ''latitude'') (renamed_labels (labels df0))) \<le> 1
        \<and> length (filter (\<lambda>l. l = ''longitude'') (renamed_labels (labels df0))) \<le> 1"
      using load_data_Inr_required [OF T] load_data_result(3) [OF T] load_data_result(4) [OF T]
      by (intro conjI)
  next
    assume "set required_columns \<subseteq> set (renamed_labels (labels df0))
        \<and> length (filter (\<lambda>l. l = ''latitude'') (renamed_labels (labels df0))) \<le> 1
        \<and> length (filter (\<lambda>l. l = ''longitude'') (renamed_labels (labels df0))) \<le> 1"
    then show "\<exists>T. load_data to_num (Inr df0) = Inr T"
      using load_data_succeeds [of df0 to_num] by blast
  qed
  have b: "\<forall>T. load_data to_num (Inr df0) = Inr T \<longrightarrow>
         rows T =
           map (update_cells (\<lambda>l. l = ''latitude'' \<or> l = ''longitude'') (to_numeric to_num)
                  (renamed_labels (labels df0)))
               (filter (keeps [''name'', ''state''] (renamed_labels (labels df0))) (rows df0))"
    using load_data_result(2) by blast
  have c: "\<forall>r c. cells_at (renamed_labels (labels df0)) c
                 (update_cells (\<lambda>l. l = ''latitude'' \<or> l = ''longitude'') (to_numeric to_num)
                    (renamed_labels (labels df0)) r)
               = (if c = ''latitude'' \<or> c = ''longitude''
                  then map (to_numeric to_num) (cells_at (renamed_labels (labels df0)) c r)
                  else cells_at (renamed_labels (labels df0)) c r)"
    by (simp add: cells_at_update_cells)
  have d: "\<forall>s. to_numeric to_num (Str s) = (case to_num s of None \<Rightarrow> NaN | Some x \<Rightarrow> Num x)"
    by (simp add: to_numeric_def split: option.splits)
  from a b c d show ?thesis by (intro conjI)
qed

theorem coordinate_coercion_witness:
  "set required_columns \<subseteq> set (renamed_labels (labels bad_latitude_csv))
   \<and> length (filter (\<lambda>l. l = ''latitude'') (renamed_labels (labels bad_latitude_csv))) \<le> 1
   \<and> length (filter (\<lambda>l. l = ''longitude'') (renamed_labels (labels bad_latitude_csv))) \<le> 1
   \<and> (\<exists>T. load_data parse_decimal (Inr bad_latitude_csv) = Inr T
        \<and> rows T =
            [[Str ''Taj Mahal'', Str ''Uttar Pradesh'', Str ''Iconic mausoleum'',
              Str ''Taj Mahal;sunrise view'', Str ''http://x/img.jpg'', NaN, Num (780421 / 10000)],
             [Str ''Amber Fort'', Str ''Rajasthan'', Str ''Hilltop palace'', Str ''Sheesh Mahal'',
              Str ''http://x/amber.jpg'', Num (269855 / 10000), Num (758513 / 10000)]])"
proof -
  have h1: "set required_columns \<subseteq> set (renamed_labels (labels bad_latitude_csv))"
    by (simp add: bad_latitude_renamed required_columns_def)
  have h2: "length (filter (\<lambda>l. l = ''latitude'') (renamed_labels (labels bad_latitude_csv))) \<le> 1"
    by (simp add: bad_latitude_renamed)
  have h3: "length (filter (\<lambda>l. l = ''longitude'') (renamed_labels (labels bad_latitude_csv))) \<le> 1"
    by (simp add: bad_latitude_renamed)
  note t = coordinate_coercion [of parse_decimal bad_latitude_csv]
  from t [THEN conjunct1] h1 h2 h3
  obtain T where T: "load_data parse_decimal (Inr bad_latitude_csv) = Inr T"
    by blast
  from t [THEN conjunct2, THEN conjunct1] T
  have "rows T =
         map (update_cells (\<lambda>l. l = ''latitude'' \<or> l = ''longitude'') (to_numeric parse_decimal)
                (renamed_labels (labels bad_latitude_csv)))
             (filter (keeps [''name'', ''state''] (renamed_labels (labels bad_latitude_csv)))
                (rows bad_latitude_csv))"
    by blast
  with T have "\<exists>T. load_data parse_decimal (Inr bad_latitude_csv) = Inr T
        \<and> rows T =
            [[Str ''Taj Mahal'', Str ''Uttar Pradesh'', Str ''Iconic mausoleum'',
              Str ''Taj Mahal;sunrise view'', Str ''http://x/img.jpg'', NaN, Num (780421 / 10000)],
             [Str ''Amber Fort'', Str ''Rajasthan'', Str ''Hilltop palace'', Str ''Sheesh Mahal'',
              Str ''http://x/amber.jpg'', Num (269855 / 10000), Num (758513 / 10000)]]"
    by (simp add: bad_latitude_renamed bad_latitude_rows)
  with h1 h2 h3 show ?thesis by (intro conjI)
qed

text \<open>
  Claim C7 says the columns of a loaded table are exactly the seven canonical names. A file
  with the five required columns and a column \<^verbatim>\<open>Best Season\<close> loads to six columns:
  \<open>best_season\<close> is retained, \<open>latitude\<close> and \<open>longitude\<close> are absent.
\<close>

theorem extra_column_counterexample:
  "load_data parse_decimal (Inr extra_column_csv) =
     Inr \<lparr>columns = [(''name'', ObjectT), (''state'', ObjectT),
          (''description'', ObjectT), (''popular_attractions'', ObjectT), (''image_url'', ObjectT),
          (''best_season'', ObjectT)],
        rows = [[Str ''Taj Mahal'', Str ''Uttar Pradesh'', Str ''Iconic mausoleum'',
                 Str ''Taj Mahal;sunrise view'', Str ''http://x/img.jpg'', Str ''Winter'']]\<rparr>
   \<and> set [''name'', ''state'', ''description'', ''popular_attractions'', ''image_url'',
           ''best_season'']
       \<noteq> set [''name'', ''state'', ''description'', ''popular_attractions'', ''image_url'',
              ''latitude'', ''longitude'']"
proof -
  have "''best_season'' \<notin> set [''name'', ''state'', ''description'', ''popular_attractions'',
      ''image_url'', ''latitude'', ''longitude'']"
    by simp
  moreover have "''best_season'' \<in> set [''name'', ''state'', ''description'',
      ''popular_attractions'', ''image_url'', ''best_season'']"
    by simp
  ultimately have "set [''name'', ''state'', ''description'', ''popular_attractions'', ''image_url'',
           ''best_season'']
       \<noteq> set [''name'', ''state'', ''description'', ''popular_attractions'', ''image_url'',
              ''latitude'', ''longitude'']"
    by metis
  with extra_column_load show ?thesis by (intro conjI)
qed

text \<open>
  Claim C7, amended. A loaded table has the columns of the file, in the order of the file.
  The five required names are among its labels; each label is the normalised header of its
  column or a canonical name; a canonical name (so also \<open>latitude\<close> and \<open>longitude\<close>) is a
  label exactly when one of its synonyms is a normalised header.
\<close>

theorem loaded_columns:
  assumes "load_data to_num (Inr df0) = Inr T"
  shows "labels T = renamed_labels (labels df0)
     \<and> length (labels T) = length (labels df0)
     \<and> set required_columns \<subseteq> set (labels T)
     \<and> (\<forall>i < length (labels df0).
           labels T ! i = norm_col (labels df0 ! i) \<or> labels T ! i \<in> fst ` set synonyms)
     \<and> (\<forall>(c, options) \<in> set synonyms.
           c \<in> set (labels T) \<longleftrightarrow> (\<exists>opt \<in> set options. opt \<in> set (map norm_col (labels df0))))"
proof -
  have l: "labels T = renamed_labels (labels df0)"
    using load_data_result(1) [OF assms] .
  have len: "length (renamed_labels (labels df0)) = length (labels df0)"
    by (simp add: renamed_labels_def Let_def)
  have req: "set required_columns \<subseteq> set (renamed_labels (labels df0))"
    using load_data_Inr_required [OF assms] .
  have pos: "renamed_labels (labels df0) ! i = norm_col (labels df0 ! i)
      \<or> renamed_labels (labels df0) ! i \<in> fst ` set synonyms" if "i < length (labels df0)" for i
    using that renamed_canonical [of "map norm_col (labels df0)" "norm_col (labels df0 ! i)"]
    by (auto simp: renamed_labels_def Let_def)
  have bound: "c \<in> set (renamed_labels (labels df0))
      \<longleftrightarrow> (\<exists>opt \<in> set options. opt \<in> set (map norm_col (labels df0)))"
    if "(c, options) \<in> set synonyms" for c options
  proof -
    have "map_of (find_columns synonyms (map norm_col (labels df0))) c
        = find (\<lambda>opt. opt \<in> set (map norm_col (labels df0))) options"
      using find_columns_map_of [OF synonyms_keys that] .
    then show ?thesis
      using label_present_iff [OF that, of "map norm_col (labels df0)"]
      by (auto simp: renamed_labels_def Let_def find_None_iff)
  qed
  have syn: "\<forall>(c, options) \<in> set synonyms.
      c \<in> set (labels T) \<longleftrightarrow> (\<exists>opt \<in> set options. opt \<in> set (map norm_col (labels df0)))"
  proof
    fix x assume "x \<in> set synonyms"
    then show "case x of (c, options) \<Rightarrow>
      c \<in> set (labels T) \<longleftrightarrow> (\<exists>opt \<in> set options. opt \<in> set (map norm_col (labels df0)))"
      using bound [of "fst x" "snd x"] l by (simp add: split_def)
  qed
  from pos have pos': "\<forall>i < length (labels df0).
      labels T ! i = norm_col (labels df0 ! i) \<or> labels T ! i \<in> fst ` set synonyms"
    by (simp add: l)
  from l len req pos' syn show ?thesis
    by simp
qed

theorem loaded_columns_witness:
  "load_data parse_decimal (Inr extra_column_csv) =
     Inr \<lparr>columns = [(''name'', ObjectT), (''state'', ObjectT),
          (''description'', ObjectT), (''popular_attractions'', ObjectT), (''image_url'', ObjectT),
          (''best_season'', ObjectT)],
        rows = [[Str ''Taj Mahal'', Str ''Uttar Pradesh'', Str ''Iconic mausoleum'',
                 Str ''Taj Mahal;sunrise view'', Str ''http://x/img.jpg'', Str ''Winter'']]\<rparr>
   \<and> [''name'', ''state'', ''description'', ''popular_attractions'', ''image_url'', ''best_season'']
       = renamed_labels (labels extra_column_csv)"
  using loaded_columns [OF extra_column_load] extra_column_load by (simp add: labels_def)

text \<open>
  Claim C8 says no record has one coordinate numeric and the other null. The two columns
  are converted one after the other, each cell on its own: with \<^verbatim>\<open>Lat\<close> \<open>27.1751\<close> and
  \<^verbatim>\<open>Lng\<close> \<open>unknown\<close> the record is loaded with a numeric latitude and a null longitude.
\<close>

theorem half_position_counterexample:
  "load_data parse_decimal (Inr half_position_csv) =
     Inr \<lparr>columns = [(''name'', ObjectT), (''state'', ObjectT),
          (''description'', ObjectT), (''popular_attractions'', ObjectT), (''image_url'', ObjectT),
          (''latitude'', NumericT), (''longitude'', NumericT)],
        rows = [[Str ''Taj Mahal'', Str ''Uttar Pradesh'', Str ''Iconic mausoleum'',
                 Str ''Taj Mahal;sunrise view'', Str ''http://x/img.jpg'',
                 Num (271751 / 10000), NaN]]\<rparr>"
  by (rule half_position_load)

text \<open>
  Claim C8, amended. In every record of a loaded table each cell under \<open>latitude\<close> or
  \<open>longitude\<close> is null or numeric, never a string; the two are independent of each other.
\<close>

theorem coordinates_numeric_or_null:
  assumes "load_data to_num (Inr df0) = Inr T"
    and "r \<in> set (rows T)"
    and "c = ''latitude'' \<or> c = ''longitude''"
    and "v \<in> set (cells_at (labels T) c r)"
  shows "v = NaN \<or> (\<exists>x. v = Num x)"
proof -
  let ?L = "renamed_labels (labels df0)"
  from assms(2) obtain r0 where
    r: "r = update_cells (\<lambda>l. l = ''latitude'' \<or> l = ''longitude'') (to_numeric to_num) ?L r0"
    using load_data_result(2) [OF assms(1)] by auto
  have "cells_at (labels T) c r = map (to_numeric to_num) (cells_at ?L c r0)"
    using assms(3) by (simp add: r load_data_result(1) [OF assms(1)] cells_at_update_cells)
  with assms(4) obtain v0 where "v = to_numeric to_num v0" by auto
  then show ?thesis
    using to_numeric_not_Str [of to_num v0] by (cases "to_numeric to_num v0") auto
qed

theorem coordinates_numeric_or_null_witness:
  "load_data parse_decimal (Inr half_position_csv) =
     Inr \<lparr>columns = [(''name'', ObjectT), (''state'', ObjectT),
          (''description'', ObjectT), (''popular_attractions'', ObjectT), (''image_url'', ObjectT),
          (''latitude'', NumericT), (''longitude'', NumericT)],
        rows = [[Str ''Taj Mahal'', Str ''Uttar Pradesh'', Str ''Iconic mausoleum'',
                 Str ''Taj Mahal;sunrise view'', Str ''http://x/img.jpg'',
                 Num (271751 / 10000), NaN]]\<rparr>
   \<and> (Num (271751 / 10000) = (NaN :: rat cell) \<or> (\<exists>x. Num (271751 / 10000) = (Num x :: rat cell)))"
proof -
  let ?r = "[Str ''Taj Mahal'', Str ''Uttar Pradesh'', Str ''Iconic mausoleum'',
             Str ''Taj Mahal;sunrise view'', Str ''http://x/img.jpg'',
             Num (271751 / 10000), NaN] :: rat cell list"
  let ?T = "\<lparr>columns = [(''name'', ObjectT), (''state'', ObjectT),
          (''description'', ObjectT), (''popular_attractions'', ObjectT), (''image_url'', ObjectT),
          (''latitude'', NumericT), (''longitude'', NumericT)], rows = [?r]\<rparr>"
  have h2: "?r \<in> set (rows ?T)" by simp
  have h3: "''latitude'' = ''latitude'' \<or> ''latitude'' = ''longitude''" by simp
  have h4: "Num (271751 / 10000) \<in> set (cells_at (labels ?T) ''latitude'' ?r)"
    by (simp add: labels_def cells_at_def)
  from coordinates_numeric_or_null [OF half_position_load h2 h3 h4] half_position_load
  show ?thesis by (intro conjI)
qed

end
